theory Spec2Isabelle
  imports Main "HOL-Library.Word"
begin

unbundle bit_operations_syntax

section \<open>The allocator of Assignment-3 (2021MT60949mmu.h)\<close>

text \<open>
  The allocator keeps its metadata in headers that sit in front of every payload.
  The model is a typed store: a map from addresses to headers, next to the three
  globals of the source. Addresses and \<open>size_t\<close> are 64-bit words (LP64), so every
  addition, subtraction and multiplication wraps as it does in C.

  The operating system is the environment. What \<open>mmap\<close> returns is a parameter of
  every operation that may call it (\<open>None\<close> is \<open>MAP_FAILED\<close>), whether \<open>munmap\<close>
  succeeds is a parameter of \<open>my_free\<close>, and \<open>getpagesize()\<close> is the parameter \<open>pg\<close>.
  The state records the live mappings and the system calls issued so far.

  An operation returns \<open>None\<close> when the C code does not return normally: a loop over
  the list runs forever, or a header is read at an address where there is none
  (undefined behaviour in C).

  Payload bytes are kept apart from the headers: \<open>memset\<close> and the program's own writes
  change bytes, never a header, and a header write does not check that the address lies
  in a live mapping.
\<close>

type_synonym addr = "64 word"
type_synonym size_t = "64 word"

subsection \<open>Constants\<close>

definition ALIGNMENT :: size_t where
  "ALIGNMENT = 16"

definition MAGIC :: "32 word" where
  "MAGIC = 1234567"

definition MMAP_THRESHOLD :: size_t where
  "MMAP_THRESHOLD = 8 * 1024"

definition HEAP_EXPANSION_SIZE :: size_t where
  "HEAP_EXPANSION_SIZE = 16 * 1024"

text \<open>
  \<open>sizeof(block_header_t)\<close> on LP64: \<open>size_t\<close> (8), two \<open>int\<close> (4 + 4), a pointer (8),
  an \<open>int\<close> (4), padded to the 8-byte alignment of the struct: 32 bytes.
\<close>

definition HEADER_SIZE :: size_t where
  "HEADER_SIZE = 32"

subsection \<open>Block headers and the allocator state\<close>

record block_header =
  blk_size :: size_t
  is_free :: bool
  is_mmap :: bool
  blk_next :: "addr option"
  magic :: "32 word"

datatype syscall =
  Mmap size_t "addr option"
| Munmap addr size_t bool

record allocator =
  hdrs :: "addr \<rightharpoonup> block_header"
  free_list :: "addr option"
  heap_start :: addr
  heap_end :: addr
  mappings :: "(addr \<times> size_t) list"
  syscalls :: "syscall list"
  bytes :: "addr \<Rightarrow> 8 word"

text \<open>The globals are \<open>NULL\<close> at program start; \<open>NULL\<close> is address 0 for the two
  \<open>void*\<close> heap bounds, and \<open>None\<close> for the pointers to headers.\<close>

definition init :: "(addr \<Rightarrow> 8 word) \<Rightarrow> allocator" where
  "init mem = \<lparr>hdrs = Map.empty, free_list = None, heap_start = 0, heap_end = 0,
     mappings = [], syscalls = [], bytes = mem\<rparr>"

subsection \<open>The operating system\<close>

text \<open>\<open>mmap(NULL, len, ...)\<close> with the address \<open>r\<close> the system chose: an anonymous mapping
  is zero-filled.\<close>

definition os_mmap :: "addr option \<Rightarrow> size_t \<Rightarrow> allocator \<Rightarrow> allocator" where
  "os_mmap r len s =
     (case r of
        None \<Rightarrow> s\<lparr>syscalls := syscalls s @ [Mmap len None]\<rparr>
      | Some a \<Rightarrow> s\<lparr>mappings := (a, len) # mappings s,
                     syscalls := syscalls s @ [Mmap len (Some a)],
                     bytes := (\<lambda>x. if x - a < len then 0 else bytes s x)\<rparr>)"

text \<open>\<open>munmap(a, len)\<close> with the verdict \<open>ok\<close> of the system: on success the mapping is
  gone, and the header at its start with it.\<close>

definition os_munmap :: "bool \<Rightarrow> addr \<Rightarrow> size_t \<Rightarrow> allocator \<Rightarrow> allocator" where
  "os_munmap ok a len s =
     (if ok then s\<lparr>hdrs := (hdrs s)(a := None),
                   mappings := remove1 (a, len) (mappings s),
                   syscalls := syscalls s @ [Munmap a len True]\<rparr>
      else s\<lparr>syscalls := syscalls s @ [Munmap a len False]\<rparr>)"

subsection \<open>Alignment functions\<close>

definition align_size :: "size_t \<Rightarrow> size_t" where
  "align_size sz = (sz + ALIGNMENT - 1) AND NOT (ALIGNMENT - 1)"

definition align_to_page :: "size_t \<Rightarrow> size_t \<Rightarrow> size_t" where
  "align_to_page pg sz = ((sz + pg - 1) div pg) * pg"

subsection \<open>Free list management\<close>

text \<open>The loop of \<open>append_block_to_free_list\<close>: walk to the node whose \<open>next\<close> is \<open>NULL\<close>.\<close>

partial_function (option) append_loop :: "(addr \<rightharpoonup> block_header) \<Rightarrow> addr \<Rightarrow> addr option" where
  "append_loop H current =
     (case H current of
        None \<Rightarrow> None
      | Some h \<Rightarrow> (case blk_next h of
                    None \<Rightarrow> Some current
                  | Some n \<Rightarrow> append_loop H n))"

definition append_block_to_free_list :: "addr \<Rightarrow> allocator \<Rightarrow> allocator option" where
  "append_block_to_free_list block s =
     (case hdrs s block of
        None \<Rightarrow> None
      | Some hb \<Rightarrow>
          let H1 = (hdrs s)(block \<mapsto> hb\<lparr>blk_next := None\<rparr>) in
          (case free_list s of
             None \<Rightarrow> Some (s\<lparr>hdrs := H1, free_list := Some block\<rparr>)
           | Some first \<Rightarrow>
               (case append_loop H1 first of
                  None \<Rightarrow> None
                | Some current \<Rightarrow>
                    (case H1 current of
                       None \<Rightarrow> None
                     | Some hc \<Rightarrow>
                         Some (s\<lparr>hdrs := H1(current \<mapsto> hc\<lparr>blk_next := Some block\<rparr>)\<rparr>)))))"

text \<open>\<open>find_prev_block\<close>: the result \<open>Some None\<close> is the C function returning \<open>NULL\<close>.\<close>

partial_function (option) find_prev_loop ::
    "(addr \<rightharpoonup> block_header) \<Rightarrow> addr option \<Rightarrow> addr \<Rightarrow> addr option option" where
  "find_prev_loop H current block =
     (case current of
        None \<Rightarrow> Some None
      | Some c \<Rightarrow> (case H c of
                    None \<Rightarrow> None
                  | Some h \<Rightarrow> if blk_next h \<noteq> Some block
                             then find_prev_loop H (blk_next h) block
                             else Some (Some c)))"

definition find_prev_block :: "addr \<Rightarrow> allocator \<Rightarrow> addr option option" where
  "find_prev_block block s = find_prev_loop (hdrs s) (free_list s) block"

partial_function (option) find_free_loop ::
    "(addr \<rightharpoonup> block_header) \<Rightarrow> addr option \<Rightarrow> size_t \<Rightarrow> addr option option" where
  "find_free_loop H current sz =
     (case current of
        None \<Rightarrow> Some None
      | Some c \<Rightarrow> (case H c of
                    None \<Rightarrow> None
                  | Some h \<Rightarrow> if is_free h \<and> blk_size h \<ge> sz
                             then Some (Some c)
                             else find_free_loop H (blk_next h) sz))"

definition find_free_block :: "size_t \<Rightarrow> allocator \<Rightarrow> addr option option" where
  "find_free_block sz s = find_free_loop (hdrs s) (free_list s) sz"

subsection \<open>Block management\<close>

definition split_block :: "addr \<Rightarrow> size_t \<Rightarrow> allocator \<Rightarrow> allocator option" where
  "split_block block sz s =
     (case hdrs s block of
        None \<Rightarrow> None
      | Some hb \<Rightarrow>
          let min_block_size = HEADER_SIZE + ALIGNMENT in
          if blk_size hb \<ge> sz + min_block_size then
            let new_block = block + HEADER_SIZE + sz;
                H1 = (hdrs s)(new_block \<mapsto>
                       \<lparr>blk_size = blk_size hb - sz - HEADER_SIZE, is_free = True,
                        is_mmap = False, blk_next = blk_next hb, magic = MAGIC\<rparr>)
            in (case H1 block of
                  None \<Rightarrow> None
                | Some hb1 \<Rightarrow>
                    Some (s\<lparr>hdrs := H1(block \<mapsto> hb1\<lparr>blk_size := sz,
                                                      blk_next := Some new_block\<rparr>)\<rparr>))
          else Some s)"

definition merge_with_next_block :: "addr \<Rightarrow> allocator \<Rightarrow> allocator option" where
  "merge_with_next_block block s =
     (case hdrs s block of
        None \<Rightarrow> None
      | Some hb \<Rightarrow>
          (case blk_next hb of
             None \<Rightarrow> Some s
           | Some n \<Rightarrow>
               (case hdrs s n of
                  None \<Rightarrow> None
                | Some hn \<Rightarrow>
                    if is_free hn
                    then Some (s\<lparr>hdrs := (hdrs s)(block \<mapsto>
                                 hb\<lparr>blk_size := blk_size hb + (HEADER_SIZE + blk_size hn),
                                    blk_next := blk_next hn\<rparr>)\<rparr>)
                    else Some s)))"

text \<open>\<open>merge_with_prev_block\<close> also returns the updated block pointer.\<close>

definition merge_with_prev_block :: "addr \<Rightarrow> allocator \<Rightarrow> (addr \<times> allocator) option" where
  "merge_with_prev_block block s =
     (case find_prev_block block s of
        None \<Rightarrow> None
      | Some None \<Rightarrow> Some (block, s)
      | Some (Some prev) \<Rightarrow>
          (case hdrs s prev of
             None \<Rightarrow> None
           | Some hp \<Rightarrow>
               if is_free hp
               then (case hdrs s block of
                       None \<Rightarrow> None
                     | Some hb \<Rightarrow>
                         Some (prev, s\<lparr>hdrs := (hdrs s)(prev \<mapsto>
                                 hp\<lparr>blk_size := blk_size hp + (HEADER_SIZE + blk_size hb),
                                    blk_next := blk_next hb\<rparr>)\<rparr>))
               else Some (block, s)))"

definition merge_adjacent_free_blocks :: "addr \<Rightarrow> allocator \<Rightarrow> (addr \<times> allocator) option" where
  "merge_adjacent_free_blocks block s =
     (case merge_with_next_block block s of
        None \<Rightarrow> None
      | Some s1 \<Rightarrow> merge_with_prev_block block s1)"

subsection \<open>Memory allocation\<close>

text \<open>The second half of \<open>request_new_heap_block\<close>, from the comment
  "Carve out a block from the newly expanded heap" on.\<close>

definition carve :: "size_t \<Rightarrow> allocator \<Rightarrow> (addr option \<times> allocator) option" where
  "carve total_size s =
     (let block = heap_start s;
          s1 = s\<lparr>heap_start := heap_start s + total_size\<rparr>;
          s2 = s1\<lparr>hdrs := (hdrs s1)(block \<mapsto>
                  \<lparr>blk_size = total_size - HEADER_SIZE, is_free = False, is_mmap = False,
                   blk_next = None, magic = MAGIC\<rparr>)\<rparr>
      in if heap_end s2 - heap_start s2 > HEADER_SIZE
         then
           let remaining_block = heap_start s2;
               s3 = s2\<lparr>hdrs := (hdrs s2)(remaining_block \<mapsto>
                       \<lparr>blk_size = heap_end s2 - heap_start s2 - HEADER_SIZE, is_free = True,
                        is_mmap = False, blk_next = None, magic = MAGIC\<rparr>)\<rparr>;
               s4 = s3\<lparr>heap_start := heap_end s3\<rparr>
           in (case append_block_to_free_list remaining_block s4 of
                 None \<Rightarrow> None
               | Some s5 \<Rightarrow>
                   (case append_block_to_free_list block s5 of
                      None \<Rightarrow> None
                    | Some s6 \<Rightarrow> Some (Some block, s6)))
         else (case append_block_to_free_list block s2 of
                 None \<Rightarrow> None
               | Some s6 \<Rightarrow> Some (Some block, s6)))"

definition request_new_heap_block ::
    "size_t \<Rightarrow> addr option \<Rightarrow> size_t \<Rightarrow> allocator \<Rightarrow> (addr option \<times> allocator) option" where
  "request_new_heap_block pg mm sz s =
     (let total_size = align_to_page pg (sz + HEADER_SIZE) in
      if heap_start s = 0 \<or> heap_end s - heap_start s < total_size
      then (case mm of
              None \<Rightarrow> Some (None, os_mmap None HEAP_EXPANSION_SIZE s)
            | Some new_heap \<Rightarrow>
                carve total_size
                  ((os_mmap (Some new_heap) HEAP_EXPANSION_SIZE s)
                     \<lparr>heap_start := new_heap, heap_end := new_heap + HEAP_EXPANSION_SIZE\<rparr>))
      else carve total_size s)"

definition request_new_mmap_block ::
    "size_t \<Rightarrow> addr option \<Rightarrow> size_t \<Rightarrow> allocator \<Rightarrow> addr option \<times> allocator" where
  "request_new_mmap_block pg mm sz s =
     (let total_size = align_to_page pg (sz + HEADER_SIZE) in
      case mm of
        None \<Rightarrow> (None, os_mmap None total_size s)
      | Some block \<Rightarrow>
          let s1 = os_mmap (Some block) total_size s
          in (Some block, s1\<lparr>hdrs := (hdrs s1)(block \<mapsto>
                 \<lparr>blk_size = total_size - HEADER_SIZE, is_free = False, is_mmap = True,
                  blk_next = None, magic = MAGIC\<rparr>)\<rparr>))"

text \<open>\<open>my_malloc\<close>: the first component of the result is the returned pointer, \<open>None\<close>
  for \<open>NULL\<close>.\<close>

definition my_malloc ::
    "size_t \<Rightarrow> addr option \<Rightarrow> size_t \<Rightarrow> allocator \<Rightarrow> (addr option \<times> allocator) option" where
  "my_malloc pg mm sz s =
     (if sz = 0 then Some (None, s)
      else
        let aligned_size = align_size sz in
        if aligned_size \<ge> MMAP_THRESHOLD then
          (case request_new_mmap_block pg mm aligned_size s of
             (None, s1) \<Rightarrow> Some (None, s1)
           | (Some block, s1) \<Rightarrow> Some (Some (block + HEADER_SIZE), s1))
        else
          (case find_free_block aligned_size s of
             None \<Rightarrow> None
           | Some (Some found) \<Rightarrow>
               (case split_block found aligned_size s of
                  None \<Rightarrow> None
                | Some s1 \<Rightarrow>
                    (case hdrs s1 found of
                       None \<Rightarrow> None
                     | Some hb \<Rightarrow>
                         Some (Some (found + HEADER_SIZE),
                               s1\<lparr>hdrs := (hdrs s1)(found \<mapsto>
                                    hb\<lparr>is_free := False, magic := MAGIC\<rparr>)\<rparr>)))
           | Some None \<Rightarrow>
               (case request_new_heap_block pg mm aligned_size s of
                  None \<Rightarrow> None
                | Some (None, s1) \<Rightarrow> Some (None, s1)
                | Some (Some block, s1) \<Rightarrow> Some (Some (block + HEADER_SIZE), s1))))"

text \<open>\<open>memset(ptr, 0, n)\<close> on the payload bytes.\<close>

definition memset_zero :: "addr \<Rightarrow> size_t \<Rightarrow> allocator \<Rightarrow> allocator" where
  "memset_zero ptr n s = s\<lparr>bytes := (\<lambda>x. if x - ptr < n then 0 else bytes s x)\<rparr>"

definition my_calloc ::
    "size_t \<Rightarrow> addr option \<Rightarrow> size_t \<Rightarrow> size_t \<Rightarrow> allocator \<Rightarrow> (addr option \<times> allocator) option" where
  "my_calloc pg mm nelem sz s =
     (let total_size = nelem * sz in
      if sz \<noteq> 0 \<and> total_size div sz \<noteq> nelem then Some (None, s)
      else (case my_malloc pg mm total_size s of
              None \<Rightarrow> None
            | Some (None, s1) \<Rightarrow> Some (None, s1)
            | Some (Some ptr, s1) \<Rightarrow> Some (Some ptr, memset_zero ptr total_size s1)))"

subsection \<open>Release\<close>

text \<open>What \<open>my_free\<close> writes to \<open>stderr\<close>.\<close>

datatype diagnostic =
  Quiet
| Invalid_free addr
| Munmap_failed

definition my_free :: "bool \<Rightarrow> addr option \<Rightarrow> allocator \<Rightarrow> (diagnostic \<times> allocator) option" where
  "my_free ok ptr s =
     (case ptr of
        None \<Rightarrow> Some (Quiet, s)
      | Some p \<Rightarrow>
          let block = p - HEADER_SIZE in
          (case hdrs s block of
             None \<Rightarrow> None
           | Some hb \<Rightarrow>
               if magic hb \<noteq> MAGIC then Some (Invalid_free block, s)
               else if is_mmap hb then
                 let total_size = blk_size hb + HEADER_SIZE in
                 Some (if ok then Quiet else Munmap_failed, os_munmap ok block total_size s)
               else
                 let s1 = s\<lparr>hdrs := (hdrs s)(block \<mapsto> hb\<lparr>is_free := True, magic := 0\<rparr>)\<rparr> in
                 (case merge_adjacent_free_blocks block s1 of
                    None \<Rightarrow> None
                  | Some (block', s2) \<Rightarrow> Some (Quiet, s2))))"

subsection \<open>The registry as a list\<close>

text \<open>\<open>chain H p xs\<close>: following \<open>next\<close> from \<open>p\<close> visits exactly the headers at \<open>xs\<close>, in this
  order, and then reaches \<open>NULL\<close>.\<close>

primrec chain :: "(addr \<rightharpoonup> block_header) \<Rightarrow> addr option \<Rightarrow> addr list \<Rightarrow> bool" where
  "chain H p [] = (p = None)"
| "chain H p (a # as) =
     (p = Some a \<and> (case H a of None \<Rightarrow> False | Some h \<Rightarrow> chain H (blk_next h) as))"

definition registry :: "allocator \<Rightarrow> addr list \<Rightarrow> bool" where
  "registry s xs = chain (hdrs s) (free_list s) xs"

subsection \<open>Blocks linked into the registry\<close>




subsection \<open>Runs of the allocator\<close>



subsection \<open>Invariants of the reachable states\<close>

text \<open>A pointer stored in the registry is good when it is \<open>NULL\<close> or points to a header
  that is not mapped, at a 16-byte aligned address if the page size is a multiple of 16.\<close>

definition good :: "size_t \<Rightarrow> (addr \<rightharpoonup> block_header) \<Rightarrow> addr option \<Rightarrow> bool" where
  "good pg H p = (case p of None \<Rightarrow> True
     | Some n \<Rightarrow> (\<exists>h. H n = Some h \<and> \<not> is_mmap h) \<and> (16 dvd pg \<longrightarrow> 16 dvd n))"






text \<open>What the list operations leave alone.\<close>

definition frame :: "size_t \<Rightarrow> allocator \<Rightarrow> allocator \<Rightarrow> bool" where
  "frame pg s s' = (mappings s' = mappings s \<and> syscalls s' = syscalls s \<and>
     heap_end s' = heap_end s \<and> dom (hdrs s) \<subseteq> dom (hdrs s') \<and>
     (\<forall>p. good pg (hdrs s) p \<longrightarrow> good pg (hdrs s') p))"

subsection \<open>Segments of the registry and fitting blocks\<close>




section \<open>Evaluating the operations on concrete states\<close>

lemmas constant_defs =
  ALIGNMENT_def MMAP_THRESHOLD_def HEADER_SIZE_def HEAP_EXPANSION_SIZE_def MAGIC_def

lemmas operation_defs =
  my_malloc_def my_calloc_def my_free_def align_size_def align_to_page_def
  find_free_block_def find_free_loop.simps find_prev_block_def find_prev_loop.simps
  append_block_to_free_list_def append_loop.simps split_block_def
  merge_adjacent_free_blocks_def merge_with_next_block_def merge_with_prev_block_def
  request_new_heap_block_def carve_def request_new_mmap_block_def
  os_mmap_def os_munmap_def memset_zero_def Let_def

section \<open>Zero-size requests\<close>

text \<open>
  C9. \<open>my_malloc(0)\<close> returns \<open>NULL\<close> and leaves the whole allocator state (headers,
  registry head, arena bounds, mappings, system calls, payload bytes) as it was, for
  every state, page size and behaviour of the operating system.
\<close>

theorem my_malloc_zero:
  "my_malloc pg mm 0 s = Some (None, s)"
  by (simp add: my_malloc_def)

section \<open>The reuse scenario\<close>

text \<open>
  C3. On a fresh allocator with 4096-byte pages whose first \<open>mmap\<close> returns \<open>M\<close>:
  allocate 32, 64 and 128 bytes, release the 64-byte pointer, allocate 50 bytes.
  All five calls return; the 64-byte allocation and the 50-byte allocation return the
  same address \<open>M + 4128\<close>, and the only system call of the whole run is the \<open>mmap\<close> of
  the first arena, so no new arena space is carved for the last request.
\<close>

theorem reuse_released_block:
  "Option.bind (my_malloc 4096 (Some M) 32 (init mem)) (\<lambda>(p1, s1).
   Option.bind (my_malloc 4096 mm2 64 s1) (\<lambda>(p2, s2).
   Option.bind (my_malloc 4096 mm3 128 s2) (\<lambda>(p3, s3).
   Option.bind (my_free ok p2 s3) (\<lambda>(d, s4).
   Option.bind (my_malloc 4096 mm5 50 s4) (\<lambda>(p5, s5).
   Some (p2, p5, syscalls s5, heap_start s5 = heap_start s3))))))
   = Some (Some (M + 4128), Some (M + 4128), [Mmap 16384 (Some M)], True)"
  by (simp add: operation_defs constant_defs init_def)

section \<open>Order of the registry after a carve\<close>

text \<open>
  C1 (the code departs from the stated order). On a fresh allocator with 4096-byte pages whose
  \<open>mmap\<close> returns \<open>M\<close>, \<open>my_malloc(32)\<close> carves the allocated block at \<open>M\<close> and the free
  remainder at \<open>M + 4096\<close>. \<open>request_new_heap_block\<close> appends the remainder first and the
  carved block second, so the registry is [remainder, carved block]: the remainder
  precedes the block that was carved before it. Releasing the pointer then lets the
  remainder absorb the block as if the block followed it in memory: the remainder, which
  has 12256 bytes up to the end of the arena, is recorded with 16352.
\<close>

theorem carve_appends_remainder_first:
  "Option.bind (my_malloc 4096 (Some M) 32 (init mem)) (\<lambda>(p, s).
   Option.bind (my_free ok p s) (\<lambda>(d, s').
     Some (p, registry s [M + 4096, M],
           map_option is_free (hdrs s (M + 4096)), map_option is_free (hdrs s M),
           map_option blk_size (hdrs s (M + 4096)),
           registry s' [M + 4096], map_option blk_size (hdrs s' (M + 4096)),
           heap_end s' - (M + 4096) - HEADER_SIZE)))
   = Some (Some (M + 32), True, Some True, Some False, Some 12256, True, Some 16352, 12256)"
  by (simp add: operation_defs constant_defs init_def registry_def)

section \<open>Zero-filled allocation\<close>







section \<open>Invariants of the reachable states\<close>

subsection \<open>Alignment arithmetic\<close>






subsection \<open>Good pointers and header updates\<close>

lemma good_None [simp]: "good pg H None"
  by (simp add: good_def)










lemma frame_refl [simp]: "frame pg s s"
  by (simp add: frame_def)





subsection \<open>The list loops return good pointers\<close>




subsection \<open>The operations keep the invariant\<close>
























section \<open>Large requests and the registry\<close>




section \<open>Releasing a mapped block\<close>



section \<open>Alignment of returned pointers\<close>



section \<open>The registry as a list\<close>















section \<open>Splitting a block found by first fit\<close>








section \<open>Release and coalescing\<close>



section \<open>Releasing a pointer twice\<close>



















end
